theory Spec2Isabelle
  imports Main "HOL-Library.Sublist"
begin

section \<open>Durable client storage\<close>

text \<open>
  The browser's \<^verbatim>\<open>localStorage\<close> is a string-keyed store of strings. \<^verbatim>\<open>getItem\<close>
  answers \<^verbatim>\<open>null\<close> (here \<open>None\<close>) for a key that is not stored.
\<close>

type_synonym storage = "string \<rightharpoonup> string"

definition getItem :: "storage \<Rightarrow> string \<Rightarrow> string option" where
  "getItem ls k = ls k"

definition setItem :: "storage \<Rightarrow> string \<Rightarrow> string \<Rightarrow> storage" where
  "setItem ls k v = ls(k \<mapsto> v)"

definition removeItem :: "storage \<Rightarrow> string \<Rightarrow> storage" where
  "removeItem ls k = ls(k := None)"

text \<open>
  JavaScript truthiness of a value that is a string or \<^verbatim>\<open>null\<close>: \<^verbatim>\<open>null\<close> and the empty
  string are falsy, every other string is truthy. It is what \<^verbatim>\<open>!!x\<close>, \<^verbatim>\<open>if (x)\<close> and
  \<^verbatim>\<open>x && ...\<close> test.
\<close>

definition truthy :: "string option \<Rightarrow> bool" where
  "truthy v = (case v of None \<Rightarrow> False | Some s \<Rightarrow> s \<noteq> [])"

section \<open>The authentication slice (store/slices/authSlice)\<close>

record auth_state =
  token :: "string option"
  isAuthenticated :: bool
  loading :: bool
  error :: "string option"
  user :: "string option"

text \<open>
  The reducers of the slice write to \<^verbatim>\<open>localStorage\<close> as well as to the slice, and the
  gateway writes \<^verbatim>\<open>window.location.href\<close>; the state they all act on is the browser's.
\<close>

record browser =
  localStorage :: storage
  auth :: auth_state
  location_href :: string

definition initialState :: "storage \<Rightarrow> auth_state" where
  "initialState ls =
     \<lparr>token = getItem ls ''token'',
      isAuthenticated = truthy (getItem ls ''token''),
      loading = False,
      error = None,
      user = None\<rparr>"

text \<open>Loading the page at \<open>href\<close>: the store is created from \<open>initialState\<close>.\<close>

definition startup :: "storage \<Rightarrow> string \<Rightarrow> browser" where
  "startup ls href = \<lparr>localStorage = ls, auth = initialState ls, location_href = href\<rparr>"

definition setToken :: "string \<Rightarrow> browser \<Rightarrow> browser" where
  "setToken payload w =
     w\<lparr>auth := (auth w)\<lparr>token := Some payload, isAuthenticated := True\<rparr>,
       localStorage := setItem (localStorage w) ''token'' payload\<rparr>"

definition logout :: "browser \<Rightarrow> browser" where
  "logout w =
     w\<lparr>localStorage := removeItem (localStorage w) ''token'',
       auth := (auth w)\<lparr>token := None, isAuthenticated := False, error := None\<rparr>\<rparr>"

definition setLoading :: "bool \<Rightarrow> browser \<Rightarrow> browser" where
  "setLoading payload w = w\<lparr>auth := (auth w)\<lparr>loading := payload\<rparr>\<rparr>"

text \<open>\<^verbatim>\<open>s.includes(sub)\<close>: \<open>sub\<close> occurs in \<open>s\<close> as a contiguous substring.\<close>

fun includes_str :: "string \<Rightarrow> string \<Rightarrow> bool" where
  "includes_str [] sub = (sub = [])"
| "includes_str (c # cs) sub = (prefix sub (c # cs) \<or> includes_str cs sub)"

text \<open>
  The payload of \<^verbatim>\<open>setError\<close> is a message or \<^verbatim>\<open>null\<close>. The guard
  \<^verbatim>\<open>action.payload && action.payload.includes(...)\<close> is \<open>clears_session\<close>.
\<close>

definition clears_session :: "string option \<Rightarrow> bool" where
  "clears_session payload =
     (case payload of
        None \<Rightarrow> False
      | Some s \<Rightarrow> s \<noteq> [] \<and> includes_str s ''Invalid username or password'')"

definition setError :: "string option \<Rightarrow> browser \<Rightarrow> browser" where
  "setError payload w =
     (let w1 = w\<lparr>auth := (auth w)\<lparr>error := payload, loading := False\<rparr>\<rparr>
      in if clears_session payload
         then w1\<lparr>auth := (auth w1)\<lparr>token := None, isAuthenticated := False\<rparr>,
                 localStorage := removeItem (localStorage w1) ''token''\<rparr>
         else w1)"

definition clearError :: "browser \<Rightarrow> browser" where
  "clearError w = w\<lparr>auth := (auth w)\<lparr>error := None\<rparr>\<rparr>"

text \<open>The actions the slice exports, and the reducer that \<^verbatim>\<open>createSlice\<close> builds from them.\<close>

datatype auth_action =
  SetToken string
| Logout
| SetLoading bool
| SetError "string option"
| ClearError

fun authReducer :: "auth_action \<Rightarrow> browser \<Rightarrow> browser" where
  "authReducer (SetToken payload) w = setToken payload w"
| "authReducer Logout w = logout w"
| "authReducer (SetLoading payload) w = setLoading payload w"
| "authReducer (SetError payload) w = setError payload w"
| "authReducer ClearError w = clearError w"

text \<open>
  The two states of the session, as every reader of the slice decides them: by the flag
  \<^verbatim>\<open>isAuthenticated\<close>.
\<close>

datatype session_status = Anonymous | Authenticated

definition status_of :: "browser \<Rightarrow> session_status" where
  "status_of w = (if isAuthenticated (auth w) then Authenticated else Anonymous)"

section \<open>The request gateway (services/api)\<close>

record http_response =
  status :: int
  data :: string

text \<open>
  An Axios error carries the response when the server answered; \<^verbatim>\<open>error.response\<close> is
  undefined (here \<open>None\<close>) for a network failure.
\<close>

record axios_error =
  message :: string
  response :: "http_response option"

record request_config =
  url :: string
  http_method :: string
  headers :: "string \<rightharpoonup> string"
  body :: "string option"

text \<open>
  The request interceptor's first handler: the token is read from \<^verbatim>\<open>localStorage\<close> when
  the handler runs, and the header is written only under \<^verbatim>\<open>if (token)\<close>.
\<close>

definition request_onFulfilled :: "request_config \<Rightarrow> browser \<Rightarrow> request_config" where
  "request_onFulfilled config w =
     (case getItem (localStorage w) ''token'' of
        None \<Rightarrow> config
      | Some t \<Rightarrow>
          if t \<noteq> []
          then config\<lparr>headers := (headers config)(''Authorization'' \<mapsto> ''Bearer '' @ t)\<rparr>
          else config)"

text \<open>A promise's outcome is a sum: \<open>Inl\<close> a rejection with its error, \<open>Inr\<close> the value.\<close>

definition request_onRejected :: "axios_error \<Rightarrow> axios_error + request_config" where
  "request_onRejected err = Inl err"

text \<open>\<^verbatim>\<open>error.response?.status === 401\<close>\<close>

definition unauthorized :: "axios_error \<Rightarrow> bool" where
  "unauthorized err = (case response err of None \<Rightarrow> False | Some r \<Rightarrow> status r = 401)"

definition response_onFulfilled ::
  "http_response \<Rightarrow> browser \<Rightarrow> (axios_error + http_response) \<times> browser" where
  "response_onFulfilled resp w = (Inr resp, w)"

text \<open>
  The response interceptor's error handler. The state it returns is the one the caller's
  own handler of the rejection runs in.
\<close>

definition response_onRejected ::
  "axios_error \<Rightarrow> browser \<Rightarrow> (axios_error + http_response) \<times> browser" where
  "response_onRejected err w =
     (let w' = (if unauthorized err
                then w\<lparr>localStorage := removeItem (localStorage w) ''token'',
                       location_href := ''/login''\<rparr>
                else w)
      in (Inl err, w'))"

section \<open>The route guard (PrivateRoute)\<close>

text \<open>
  What the component returns: its children, or the element
  \<^verbatim>\<open><Navigate to="/login" replace />\<close> with its two props.
\<close>

datatype 'c element =
  Navigate (nav_to: string) (nav_replace: bool)
| Children 'c

definition PrivateRoute :: "'c \<Rightarrow> browser \<Rightarrow> 'c element" where
  "PrivateRoute children w =
     (if \<not> isAuthenticated (auth w) then Navigate ''/login'' True else Children children)"

section \<open>Runs of the session\<close>

text \<open>
  What happens to the session between two page loads: actions are dispatched to the slice,
  and failed responses arrive at the gateway's response interceptor.
\<close>

datatype event =
  Dispatch auth_action
| ResponseError axios_error

fun apply_event :: "event \<Rightarrow> browser \<Rightarrow> browser" where
  "apply_event (Dispatch a) w = authReducer a w"
| "apply_event (ResponseError err) w = snd (response_onRejected err w)"

fun run :: "event list \<Rightarrow> browser \<Rightarrow> browser" where
  "run [] w = w"
| "run (ev # evs) w = run evs (apply_event ev w)"

text \<open>
  The operations of the session store proper: \<^verbatim>\<open>setToken\<close> with a non-empty token, and
  \<^verbatim>\<open>logout\<close>.
\<close>

fun store_op :: "event \<Rightarrow> bool" where
  "store_op (Dispatch (SetToken payload)) = (payload \<noteq> [])"
| "store_op (Dispatch Logout) = True"
| "store_op _ = False"

text \<open>The same, and the gateway's invalidation: a response of status 401 arrives.\<close>

fun session_op :: "event \<Rightarrow> bool" where
  "session_op (ResponseError err) = unauthorized err"
| "session_op ev = store_op ev"

text \<open>
  The flag agrees with the two stores: it is set if and only if a token is present in the
  slice and in durable storage.
\<close>

definition in_sync :: "browser \<Rightarrow> bool" where
  "in_sync w =
     (isAuthenticated (auth w) =
        (truthy (token (auth w)) \<and> truthy (getItem (localStorage w) ''token'')))"

text \<open>
  The weaker agreement: the flag is set if and only if a token is present in the slice, and
  a token present in durable storage is the slice's.
\<close>

definition storage_within_memory :: "browser \<Rightarrow> bool" where
  "storage_within_memory w =
     (isAuthenticated (auth w) = truthy (token (auth w))
      \<and> (if truthy (getItem (localStorage w) ''token'')
         then getItem (localStorage w) ''token'' = token (auth w)
         else True))"

section \<open>The category screen (components/categories/Categories)\<close>

text \<open>
  The screen that \<^verbatim>\<open>App\<close> mounts at \<^verbatim>\<open>/categories\<close>. It is the one module, of those the
  application imports, that dispatches the thunk \<^verbatim>\<open>deleteCategory\<close>;
  components/inventory/Categories.js is imported by no module and is part of no screen.
\<close>

record category =
  id_category :: nat
  name :: string
  description :: "string option"
  products_count :: "int option"

text \<open>\<^verbatim>\<open>category.products_count > 0\<close>; the comparison is false for an undefined count.\<close>

definition has_products :: "category \<Rightarrow> bool" where
  "has_products c = (case products_count c of None \<Rightarrow> False | Some n \<Rightarrow> n > 0)"

text \<open>
  The thunk actions the screen dispatches to delete: \<^verbatim>\<open>deleteCategory(id)\<close>, whose body is
  the gateway's DELETE call for the category of that id.
\<close>

datatype inventory_thunk = DeleteCategory nat

text \<open>
  \<^verbatim>\<open>handleDelete\<close>: the thunk is dispatched when the user confirms (\<^verbatim>\<open>window.confirm\<close>
  answers \<open>confirmed\<close>). The result lists what was dispatched.
\<close>

definition handleDelete :: "nat \<Rightarrow> bool \<Rightarrow> inventory_thunk list" where
  "handleDelete i confirmed = (if confirmed then [DeleteCategory i] else [])"

text \<open>A button: its \<^verbatim>\<open>disabled\<close> attribute, and the id its \<^verbatim>\<open>onClick\<close> passes to \<^verbatim>\<open>handleDelete\<close>.\<close>

record button =
  disabled :: bool
  onClick :: nat

text \<open>The delete button of a category's row.\<close>

definition categories_delete_button :: "category \<Rightarrow> button" where
  "categories_delete_button c = \<lparr>disabled = has_products c, onClick = id_category c\<rparr>"

text \<open>A click: a disabled button does not call its handler.\<close>

definition click :: "button \<Rightarrow> bool \<Rightarrow> inventory_thunk list" where
  "click b confirmed = (if disabled b then [] else handleDelete (onClick b) confirmed)"

section \<open>Properties of the session store\<close>

text \<open>
  C8. At startup the session is derived from durable storage alone, by a pure read of the
  key \<^verbatim>\<open>token\<close> (no request is made: \<open>initialState\<close> takes the storage and nothing else,
  and two storages that agree on the key give the same state). When storage holds a token
  (the read is truthy, the test \<^verbatim>\<open>!!localStorage.getItem('token')\<close> of the source) the
  session starts Authenticated, with that token in memory and the flag set; otherwise it
  starts Anonymous. An empty string under the key counts as no token, as it does for the
  source's test.
\<close>

theorem initialState_from_storage:
  "(truthy (getItem ls ''token'') \<longrightarrow>
      status_of (startup ls href) = Authenticated
      \<and> isAuthenticated (initialState ls)
      \<and> token (initialState ls) = getItem ls ''token'')
   \<and> (\<not> truthy (getItem ls ''token'') \<longrightarrow>
        status_of (startup ls href) = Anonymous \<and> \<not> isAuthenticated (initialState ls))
   \<and> (getItem ls ''token'' = None \<longrightarrow> token (initialState ls) = None)
   \<and> (getItem ls ''token'' = getItem ls' ''token'' \<longrightarrow> initialState ls = initialState ls')
   \<and> auth (startup ls href) = initialState ls
   \<and> localStorage (startup ls href) = ls
   \<and> location_href (startup ls href) = href
   \<and> loading (initialState ls) = False
   \<and> error (initialState ls) = None
   \<and> user (initialState ls) = None"
  by (simp add: startup_def initialState_def status_of_def)

text \<open>
  A reload with the token \<^verbatim>\<open>abc\<close> stored, one with nothing stored, and one with the empty
  string stored.
\<close>

theorem initialState_from_storage_witness:
  "truthy (getItem [''token'' \<mapsto> ''abc''] ''token'')
   \<and> status_of (startup [''token'' \<mapsto> ''abc''] ''/products'') = Authenticated
   \<and> token (initialState [''token'' \<mapsto> ''abc'']) = Some ''abc''
   \<and> \<not> truthy (getItem Map.empty ''token'')
   \<and> status_of (startup Map.empty ''/products'') = Anonymous
   \<and> token (initialState Map.empty) = None
   \<and> \<not> truthy (getItem [''token'' \<mapsto> []] ''token'')
   \<and> status_of (startup [''token'' \<mapsto> []] ''/products'') = Anonymous"
proof -
  have a: "truthy (getItem [''token'' \<mapsto> ''abc''] ''token'')"
    by (simp add: truthy_def getItem_def)
  have b: "\<not> truthy (getItem Map.empty ''token'')"
    by (simp add: truthy_def getItem_def)
  have c: "getItem Map.empty ''token'' = None"
    by (simp add: getItem_def)
  have d: "getItem [''token'' \<mapsto> ''abc''] ''token'' = Some ''abc''"
    by (simp add: getItem_def)
  have e: "\<not> truthy (getItem [''token'' \<mapsto> []] ''token'')"
    by (simp add: truthy_def getItem_def)
  show ?thesis
    using a b c d e
      initialState_from_storage [of "[''token'' \<mapsto> ''abc'']" "''/products''"]
      initialState_from_storage [of Map.empty "''/products''"]
      initialState_from_storage [of "[''token'' \<mapsto> []]" "''/products''"]
    by simp
qed

text \<open>
  C9. \<^verbatim>\<open>logout\<close> is idempotent: in every state, a second \<^verbatim>\<open>logout\<close> right after the first
  leaves the in-memory token, the flag \<^verbatim>\<open>isAuthenticated\<close> and the durable storage (indeed
  the whole state) as the first left them; and after \<^verbatim>\<open>logout\<close>, from any state, also a
  logged-out one, the session is logged out: no token in memory, none in storage, the flag
  false.
\<close>

theorem logout_idempotent:
  "logout (logout w) = logout w
   \<and> token (auth (logout (logout w))) = token (auth (logout w))
   \<and> isAuthenticated (auth (logout (logout w))) = isAuthenticated (auth (logout w))
   \<and> localStorage (logout (logout w)) = localStorage (logout w)
   \<and> token (auth (logout w)) = None
   \<and> isAuthenticated (auth (logout w)) = False
   \<and> getItem (localStorage (logout w)) ''token'' = None
   \<and> status_of (logout w) = Anonymous"
  by (simp add: logout_def removeItem_def getItem_def status_of_def)

text \<open>
  C10. \<^verbatim>\<open>setToken\<close> has no check of its payload: for every payload it sets the flag
  \<^verbatim>\<open>isAuthenticated\<close>, keeps the payload as the in-memory token and writes it to durable
  storage under the key \<^verbatim>\<open>token\<close>. With the empty string the session is flagged
  authenticated while the token in memory (and in storage) is empty.
\<close>

theorem setToken_unchecked:
  "isAuthenticated (auth (setToken payload w))
   \<and> token (auth (setToken payload w)) = Some payload
   \<and> getItem (localStorage (setToken payload w)) ''token'' = Some payload
   \<and> isAuthenticated (auth (setToken [] w))
   \<and> token (auth (setToken [] w)) = Some []
   \<and> status_of (setToken [] w) = Authenticated
   \<and> \<not> truthy (token (auth (setToken [] w)))"
  by (simp add: setToken_def setItem_def getItem_def status_of_def truthy_def)

subsection \<open>The flag and the two stores\<close>

lemma in_sync_startup: "in_sync (startup ls href)"
  by (simp add: in_sync_def startup_def initialState_def)

lemma storage_within_memory_startup: "storage_within_memory (startup ls href)"
  by (simp add: storage_within_memory_def startup_def initialState_def)

text \<open>A store operation establishes the agreement, whatever the state before it.\<close>

lemma store_op_in_sync: "store_op ev \<Longrightarrow> in_sync (apply_event ev w)"
proof (cases ev)
  case (Dispatch a)
  assume "store_op ev"
  with Dispatch show ?thesis
    by (cases a)
      (simp_all add: in_sync_def setToken_def logout_def setItem_def removeItem_def
        getItem_def truthy_def)
next
  case (ResponseError err)
  assume "store_op ev"
  with ResponseError show ?thesis by simp
qed

lemma session_op_within:
  assumes "session_op ev" and "storage_within_memory w"
  shows "storage_within_memory (apply_event ev w)"
proof (cases ev)
  case (Dispatch a)
  with assms show ?thesis
    by (cases a)
      (simp_all add: storage_within_memory_def setToken_def logout_def setItem_def
        removeItem_def getItem_def truthy_def)
next
  case (ResponseError err)
  with assms show ?thesis
    by (simp add: storage_within_memory_def response_onRejected_def removeItem_def
        getItem_def truthy_def)
qed

lemma run_in_sync:
  "\<forall>ev\<in>set evs. store_op ev \<Longrightarrow> in_sync w \<Longrightarrow> in_sync (run evs w)"
  by (induction evs arbitrary: w) (simp_all add: store_op_in_sync)

lemma run_within:
  "\<forall>ev\<in>set evs. session_op ev \<Longrightarrow> storage_within_memory w
   \<Longrightarrow> storage_within_memory (run evs w)"
  by (induction evs arbitrary: w) (simp_all add: session_op_within)

text \<open>
  C3, as amended. From a page load on, for every sequence of \<^verbatim>\<open>setToken\<close> (with non-empty
  tokens) and \<^verbatim>\<open>logout\<close>, after each operation (after each prefix \<open>take n\<close> of the
  sequence) \<^verbatim>\<open>isAuthenticated\<close> is true if and only if a token is present both in the slice
  and in durable storage. When the gateway's invalidations (responses of status 401) are
  among the operations, what holds after each of them is weaker: the flag is true if and
  only if a token is present in the slice, and a token present in durable storage is the
  slice's; the gateway empties the storage and leaves the slice as it is.
\<close>

theorem session_store_in_sync:
  "((\<forall>ev\<in>set evs. store_op ev) \<longrightarrow> in_sync (run (take n evs) (startup ls href)))
   \<and> ((\<forall>ev\<in>set evs. session_op ev)
        \<longrightarrow> storage_within_memory (run (take n evs) (startup ls href)))"
proof (intro conjI impI)
  assume a: "\<forall>ev\<in>set evs. store_op ev"
  have "\<forall>ev\<in>set (take n evs). store_op ev"
    using a by (meson in_set_takeD)
  then show "in_sync (run (take n evs) (startup ls href))"
    by (rule run_in_sync) (rule in_sync_startup)
next
  assume a: "\<forall>ev\<in>set evs. session_op ev"
  have "\<forall>ev\<in>set (take n evs). session_op ev"
    using a by (meson in_set_takeD)
  then show "storage_within_memory (run (take n evs) (startup ls href))"
    by (rule run_within) (rule storage_within_memory_startup)
qed

text \<open>
  A login, a logout and a second login in a fresh browser; and a login followed by a
  response of status 401.
\<close>

theorem session_store_in_sync_witness:
  "store_op (Dispatch (SetToken ''abc'')) \<and> store_op (Dispatch Logout)
   \<and> store_op (Dispatch (SetToken ''xyz''))
   \<and> in_sync (run (take 3 [Dispatch (SetToken ''abc''), Dispatch Logout,
                            Dispatch (SetToken ''xyz'')])
                (startup Map.empty ''/login''))
   \<and> isAuthenticated (auth (run (take 3 [Dispatch (SetToken ''abc''), Dispatch Logout,
                            Dispatch (SetToken ''xyz'')])
                (startup Map.empty ''/login'')))
   \<and> session_op (ResponseError \<lparr>message = ''Request failed with status code 401'',
           response = Some \<lparr>status = 401, data = []\<rparr>\<rparr>)
   \<and> storage_within_memory
        (run (take 2 [Dispatch (SetToken ''abc''),
                      ResponseError \<lparr>message = ''Request failed with status code 401'',
           response = Some \<lparr>status = 401, data = []\<rparr>\<rparr>])
             (startup Map.empty ''/login''))"
proof -
  have h1: "\<forall>ev\<in>set [Dispatch (SetToken ''abc''), Dispatch Logout,
                       Dispatch (SetToken ''xyz'')]. store_op ev"
    by simp
  have h2: "\<forall>ev\<in>set [Dispatch (SetToken ''abc''),
                      ResponseError \<lparr>message = ''Request failed with status code 401'',
           response = Some \<lparr>status = 401, data = []\<rparr>\<rparr>]. session_op ev"
    by (simp add: unauthorized_def)
  show ?thesis
    using h1 h2
      session_store_in_sync [of "[Dispatch (SetToken ''abc''), Dispatch Logout,
                       Dispatch (SetToken ''xyz'')]" 3 Map.empty "''/login''"]
      session_store_in_sync [of "[Dispatch (SetToken ''abc''),
                      ResponseError \<lparr>message = ''Request failed with status code 401'',
           response = Some \<lparr>status = 401, data = []\<rparr>\<rparr>]" 2 Map.empty "''/login''"]
    by (simp add: unauthorized_def setToken_def logout_def)
qed

text \<open>
  The claim as stated fails when an invalidation is among the operations: after a login
  with the token \<^verbatim>\<open>abc\<close> and a response of status 401, the flag is still set and the token
  still in the slice, while durable storage holds none.
\<close>

theorem invalidate_out_of_sync_counterexample:
  "session_op (Dispatch (SetToken ''abc''))
   \<and> session_op (ResponseError \<lparr>message = ''Request failed with status code 401'',
           response = Some \<lparr>status = 401, data = []\<rparr>\<rparr>)
   \<and> isAuthenticated (auth (run [Dispatch (SetToken ''abc''),
                      ResponseError \<lparr>message = ''Request failed with status code 401'',
           response = Some \<lparr>status = 401, data = []\<rparr>\<rparr>]
             (startup Map.empty ''/login'')))
   \<and> getItem (localStorage (run [Dispatch (SetToken ''abc''),
                      ResponseError \<lparr>message = ''Request failed with status code 401'',
           response = Some \<lparr>status = 401, data = []\<rparr>\<rparr>]
             (startup Map.empty ''/login''))) ''token'' = None
   \<and> \<not> in_sync (run [Dispatch (SetToken ''abc''),
                      ResponseError \<lparr>message = ''Request failed with status code 401'',
           response = Some \<lparr>status = 401, data = []\<rparr>\<rparr>]
             (startup Map.empty ''/login''))"
  by (simp add: unauthorized_def response_onRejected_def setToken_def startup_def
      in_sync_def getItem_def removeItem_def setItem_def truthy_def)

subsection \<open>The transitions of the session\<close>

text \<open>
  C4, as amended. The session has two states and no third. \<^verbatim>\<open>setToken\<close> ends Authenticated
  and \<^verbatim>\<open>logout\<close> ends Anonymous, from either state. The status changes in exactly three
  cases: from Anonymous by \<^verbatim>\<open>setToken\<close>; from Authenticated by \<^verbatim>\<open>logout\<close>; and from
  Authenticated by \<^verbatim>\<open>setError\<close> when its payload is a non-empty message that contains
  \<^verbatim>\<open>Invalid username or password\<close>. \<^verbatim>\<open>setLoading\<close>, \<^verbatim>\<open>clearError\<close>, \<^verbatim>\<open>setError\<close> with any
  other payload, and the gateway's response handlers (the one for status 401 too) leave
  the status of the slice as it is.
\<close>

theorem session_transitions:
  "(status_of w = Anonymous \<or> status_of w = Authenticated)
   \<and> status_of (authReducer (SetToken payload) w) = Authenticated
   \<and> status_of (authReducer Logout w) = Anonymous
   \<and> (clears_session e \<longrightarrow> status_of (authReducer (SetError e) w) = Anonymous)
   \<and> (status_of (authReducer a w) \<noteq> status_of w \<longleftrightarrow>
        (case a of
           SetToken p \<Rightarrow> status_of w = Anonymous
         | Logout \<Rightarrow> status_of w = Authenticated
         | SetError m \<Rightarrow> clears_session m \<and> status_of w = Authenticated
         | SetLoading b \<Rightarrow> False
         | ClearError \<Rightarrow> False))
   \<and> status_of (snd (response_onRejected err w)) = status_of w
   \<and> status_of (snd (response_onFulfilled resp w)) = status_of w"
  by (cases a)
    (simp_all add: status_of_def setToken_def logout_def setError_def setLoading_def
      clearError_def response_onRejected_def response_onFulfilled_def Let_def)

text \<open>A logged-in session receives the two kinds of error message.\<close>

theorem session_transitions_witness:
  "clears_session (Some ''Invalid username or password'')
   \<and> status_of (authReducer (SetError (Some ''Invalid username or password''))
        (setToken ''abc'' (startup Map.empty ''/login''))) = Anonymous
   \<and> status_of (authReducer (SetError (Some ''Network Error''))
        (setToken ''abc'' (startup Map.empty ''/login'')))
      = status_of (setToken ''abc'' (startup Map.empty ''/login''))"
proof -
  have h: "clears_session (Some ''Invalid username or password'')"
    by (simp add: clears_session_def)
  have n: "\<not> clears_session (Some ''Network Error'')"
    by (simp add: clears_session_def)
  show ?thesis
    using h n
      session_transitions [of "setToken ''abc'' (startup Map.empty ''/login'')" _
        "Some ''Invalid username or password''" "SetError (Some ''Network Error'')"]
    by simp
qed

text \<open>
  The claim as stated fails: \<^verbatim>\<open>setError\<close>, which is neither \<^verbatim>\<open>logout\<close> nor an
  invalidation, takes a session from Authenticated to Anonymous and removes the stored
  token.
\<close>

theorem setError_logs_out_counterexample:
  "status_of (setToken ''abc'' (startup Map.empty ''/login'')) = Authenticated
   \<and> status_of (authReducer (SetError (Some ''Invalid username or password''))
        (setToken ''abc'' (startup Map.empty ''/login''))) = Anonymous
   \<and> getItem (localStorage (authReducer (SetError (Some ''Invalid username or password''))
        (setToken ''abc'' (startup Map.empty ''/login'')))) ''token'' = None"
  by (simp add: status_of_def setToken_def setError_def clears_session_def Let_def
      removeItem_def getItem_def)

section \<open>Properties of the request gateway\<close>

text \<open>
  C2, as amended. A call sent through the gateway carries the header
  \<^verbatim>\<open>Authorization: Bearer <token>\<close> exactly when durable storage holds a non-empty token at
  the time the request handler runs; the token is the one stored at that time, and the rest
  of the request is as the caller made it. When storage holds no token (or an empty one)
  the request goes out as the caller made it, with no header added. A token written by
  \<^verbatim>\<open>setToken\<close> between two calls is the one the second call carries.
\<close>

theorem request_bearer_at_send_time:
  "(getItem (localStorage w) ''token'' = Some t \<and> t \<noteq> [] \<longrightarrow>
      headers (request_onFulfilled config w) ''Authorization'' = Some (''Bearer '' @ t)
      \<and> (\<forall>h. h \<noteq> ''Authorization'' \<longrightarrow>
            headers (request_onFulfilled config w) h = headers config h)
      \<and> url (request_onFulfilled config w) = url config
      \<and> http_method (request_onFulfilled config w) = http_method config
      \<and> body (request_onFulfilled config w) = body config)
   \<and> (\<not> truthy (getItem (localStorage w) ''token'') \<longrightarrow>
        request_onFulfilled config w = config)
   \<and> (t2 \<noteq> [] \<longrightarrow>
        headers (request_onFulfilled config (setToken t2 w)) ''Authorization''
          = Some (''Bearer '' @ t2))"
  by (auto simp add: request_onFulfilled_def truthy_def setToken_def setItem_def getItem_def
      split: option.splits)

text \<open>
  A call after a login with the token \<^verbatim>\<open>t1\<close>, and one after the token was replaced by
  \<^verbatim>\<open>t2\<close>.
\<close>

theorem request_bearer_witness:
  "getItem (localStorage (setToken ''t1'' (startup Map.empty ''/login''))) ''token''
     = Some ''t1''
   \<and> headers (request_onFulfilled
        \<lparr>url = ''/api/products/'', http_method = ''get'',
         headers = [''Content-Type'' \<mapsto> ''application/json''], body = None\<rparr>
        (setToken ''t1'' (startup Map.empty ''/login''))) ''Authorization''
     = Some ''Bearer t1''
   \<and> headers (request_onFulfilled
        \<lparr>url = ''/api/products/'', http_method = ''get'',
         headers = [''Content-Type'' \<mapsto> ''application/json''], body = None\<rparr>
        (setToken ''t2'' (setToken ''t1'' (startup Map.empty ''/login'')))) ''Authorization''
     = Some ''Bearer t2''
   \<and> \<not> truthy (getItem (localStorage (startup Map.empty ''/login'')) ''token'')"
proof -
  have h: "getItem (localStorage (setToken ''t1'' (startup Map.empty ''/login''))) ''token''
     = Some ''t1''"
    by (simp add: setToken_def setItem_def getItem_def)
  have n: "\<not> truthy (getItem (localStorage (startup Map.empty ''/login'')) ''token'')"
    by (simp add: startup_def getItem_def truthy_def)
  show ?thesis
    using h n
      request_bearer_at_send_time [of "setToken ''t1'' (startup Map.empty ''/login'')" "''t1''"
        "\<lparr>url = ''/api/products/'', http_method = ''get'',
         headers = [''Content-Type'' \<mapsto> ''application/json''], body = None\<rparr>" "''t2''"]
    by simp
qed

text \<open>
  The claim as stated fails: the login call of a fresh browser goes out with no
  \<^verbatim>\<open>Authorization\<close> header.
\<close>

theorem request_without_token_counterexample:
  "headers (request_onFulfilled
        \<lparr>url = ''/api/auth/token/'', http_method = ''post'',
         headers = [''Content-Type'' \<mapsto> ''application/json''],
         body = Some ''{username: u, password: secret12}''\<rparr>
        (startup Map.empty ''/login'')) ''Authorization'' = None"
  by (simp add: request_onFulfilled_def startup_def getItem_def)

text \<open>
  C1, as amended. For every failed response of status 401, the response interceptor removes
  the token from durable storage and sets the location to \<^verbatim>\<open>/login\<close>, and the caller gets
  the rejection, with the error unchanged, in the state where both are done. The handler
  takes the error and nothing of the screen that made the call. It leaves the slice as it
  is: the in-memory session keeps its token and its status, and is Anonymous once the store
  is created anew from the emptied storage, on the page load that the redirect brings.
\<close>

theorem gateway_401_clears_storage_and_redirects:
  assumes "unauthorized err"
  shows "fst (response_onRejected err w) = Inl err
   \<and> getItem (localStorage (snd (response_onRejected err w))) ''token'' = None
   \<and> location_href (snd (response_onRejected err w)) = ''/login''
   \<and> auth (snd (response_onRejected err w)) = auth w
   \<and> status_of (snd (response_onRejected err w)) = status_of w
   \<and> status_of (startup (localStorage (snd (response_onRejected err w)))
                          (location_href (snd (response_onRejected err w)))) = Anonymous
   \<and> token (auth (startup (localStorage (snd (response_onRejected err w)))
                            (location_href (snd (response_onRejected err w))))) = None"
  using assms
  by (simp add: response_onRejected_def removeItem_def getItem_def status_of_def
      startup_def initialState_def truthy_def)

text \<open>A logged-in session on the profile screen gets a response of status 401.\<close>

theorem gateway_401_witness:
  "unauthorized \<lparr>message = ''Request failed with status code 401'',
           response = Some \<lparr>status = 401, data = []\<rparr>\<rparr>
   \<and> fst (response_onRejected
          \<lparr>message = ''Request failed with status code 401'',
           response = Some \<lparr>status = 401, data = []\<rparr>\<rparr>
          (setToken ''abc'' (startup Map.empty ''/profile'')))
       = Inl \<lparr>message = ''Request failed with status code 401'',
           response = Some \<lparr>status = 401, data = []\<rparr>\<rparr>
   \<and> getItem (localStorage (snd (response_onRejected
          \<lparr>message = ''Request failed with status code 401'',
           response = Some \<lparr>status = 401, data = []\<rparr>\<rparr>
          (setToken ''abc'' (startup Map.empty ''/profile''))))) ''token'' = None
   \<and> location_href (snd (response_onRejected
          \<lparr>message = ''Request failed with status code 401'',
           response = Some \<lparr>status = 401, data = []\<rparr>\<rparr>
          (setToken ''abc'' (startup Map.empty ''/profile'')))) = ''/login''"
proof -
  have h: "unauthorized \<lparr>message = ''Request failed with status code 401'',
           response = Some \<lparr>status = 401, data = []\<rparr>\<rparr>"
    by (simp add: unauthorized_def)
  show ?thesis
    using h gateway_401_clears_storage_and_redirects [OF h,
        of "setToken ''abc'' (startup Map.empty ''/profile'')"]
    by simp
qed

text \<open>
  The claim as stated fails: when the interceptor hands the rejection to the caller, the
  in-memory session is still Authenticated and still holds the token.
\<close>

theorem gateway_401_session_counterexample:
  "status_of (snd (response_onRejected
          \<lparr>message = ''Request failed with status code 401'',
           response = Some \<lparr>status = 401, data = []\<rparr>\<rparr>
          (setToken ''abc'' (startup Map.empty ''/profile'')))) = Authenticated
   \<and> token (auth (snd (response_onRejected
          \<lparr>message = ''Request failed with status code 401'',
           response = Some \<lparr>status = 401, data = []\<rparr>\<rparr>
          (setToken ''abc'' (startup Map.empty ''/profile''))))) = Some ''abc''"
  by (simp add: response_onRejected_def unauthorized_def setToken_def startup_def
      status_of_def)

text \<open>
  C7. A failed response whose status is not 401, and a failure with no response at all (a
  network failure), is rejected to the caller with the error as it came and the browser
  state as it was: nothing is cleared, nothing is sent again. In every case the rejection
  carries the error unchanged. A successful response is returned as it came, the state
  untouched.
\<close>

theorem gateway_passthrough:
  "(\<not> unauthorized err \<longrightarrow> response_onRejected err w = (Inl err, w))
   \<and> fst (response_onRejected err w) = Inl err
   \<and> response_onFulfilled resp w = (Inr resp, w)"
  by (simp add: response_onRejected_def response_onFulfilled_def)

text \<open>A network failure and a response of status 500, in a logged-in session.\<close>

theorem gateway_passthrough_witness:
  "\<not> unauthorized \<lparr>message = ''Network Error'', response = None\<rparr>
   \<and> response_onRejected \<lparr>message = ''Network Error'', response = None\<rparr>
        (setToken ''abc'' (startup Map.empty ''/products''))
      = (Inl \<lparr>message = ''Network Error'', response = None\<rparr>,
         setToken ''abc'' (startup Map.empty ''/products''))
   \<and> \<not> unauthorized \<lparr>message = ''Request failed with status code 500'',
           response = Some \<lparr>status = 500, data = ''oops''\<rparr>\<rparr>
   \<and> response_onRejected \<lparr>message = ''Request failed with status code 500'',
           response = Some \<lparr>status = 500, data = ''oops''\<rparr>\<rparr>
        (setToken ''abc'' (startup Map.empty ''/products''))
      = (Inl \<lparr>message = ''Request failed with status code 500'',
           response = Some \<lparr>status = 500, data = ''oops''\<rparr>\<rparr>,
         setToken ''abc'' (startup Map.empty ''/products''))"
proof -
  have h1: "\<not> unauthorized \<lparr>message = ''Network Error'', response = None\<rparr>"
    by (simp add: unauthorized_def)
  have h2: "\<not> unauthorized \<lparr>message = ''Request failed with status code 500'',
           response = Some \<lparr>status = 500, data = ''oops''\<rparr>\<rparr>"
    by (simp add: unauthorized_def)
  show ?thesis
    using h1 h2
      gateway_passthrough [of "\<lparr>message = ''Network Error'', response = None\<rparr>"
        "setToken ''abc'' (startup Map.empty ''/products'')"]
      gateway_passthrough [of "\<lparr>message = ''Request failed with status code 500'',
           response = Some \<lparr>status = 500, data = ''oops''\<rparr>\<rparr>"
        "setToken ''abc'' (startup Map.empty ''/products'')"]
    by simp
qed

section \<open>Properties of the route guard\<close>

text \<open>
  C6. The guard renders its children if and only if the session is Authenticated when it
  renders. Authenticated, it returns the children as they are. Anonymous, it returns the
  redirect to \<^verbatim>\<open>/login\<close> with \<^verbatim>\<open>replace\<close> set, so the entry is replaced and not pushed. The
  render that follows a \<^verbatim>\<open>logout\<close> is the redirect.
\<close>

theorem PrivateRoute_guard:
  "((\<exists>c. PrivateRoute children w = Children c) \<longleftrightarrow> status_of w = Authenticated)
   \<and> (status_of w = Authenticated \<longrightarrow> PrivateRoute children w = Children children)
   \<and> (status_of w = Anonymous \<longrightarrow>
        PrivateRoute children w = Navigate ''/login'' True
        \<and> nav_to (PrivateRoute children w) = ''/login''
        \<and> nav_replace (PrivateRoute children w))
   \<and> PrivateRoute children (logout w) = Navigate ''/login'' True"
  by (simp add: PrivateRoute_def status_of_def logout_def)

text \<open>The dashboard behind the guard, after a login and in a fresh browser.\<close>

theorem PrivateRoute_guard_witness:
  "status_of (setToken ''abc'' (startup Map.empty ''/login'')) = Authenticated
   \<and> PrivateRoute ''Dashboard'' (setToken ''abc'' (startup Map.empty ''/login''))
       = Children ''Dashboard''
   \<and> status_of (startup Map.empty ''/products'') = Anonymous
   \<and> PrivateRoute ''Dashboard'' (startup Map.empty ''/products'')
       = Navigate ''/login'' True"
proof -
  have a: "status_of (setToken ''abc'' (startup Map.empty ''/login'')) = Authenticated"
    by (simp add: status_of_def setToken_def)
  have b: "status_of (startup Map.empty ''/products'') = Anonymous"
    by (simp add: status_of_def startup_def initialState_def getItem_def truthy_def)
  show ?thesis
    using a b
      PrivateRoute_guard [of "''Dashboard''" "setToken ''abc'' (startup Map.empty ''/login'')"]
      PrivateRoute_guard [of "''Dashboard''" "startup Map.empty ''/products''"]
    by simp
qed

section \<open>Properties of the category screen\<close>

text \<open>
  C5. For every category whose product count is greater than zero, the delete button of
  its row is disabled, and a click on it dispatches no \<^verbatim>\<open>deleteCategory\<close>, whatever the
  user would answer to the confirmation: no DELETE call for the category leaves the screen.
  The button is disabled for these categories only; for any other category a confirmed
  click dispatches the deletion of that category.
\<close>

theorem category_delete_disabled:
  "(has_products c \<longrightarrow>
      disabled (categories_delete_button c)
      \<and> click (categories_delete_button c) confirmed = [])
   \<and> (disabled (categories_delete_button c) \<longleftrightarrow> has_products c)
   \<and> (\<not> has_products c \<longrightarrow>
        click (categories_delete_button c) True = [DeleteCategory (id_category c)])"
  by (simp add: categories_delete_button_def click_def handleDelete_def)

text \<open>The category 7 with three products, and the category 8 with none.\<close>

theorem category_delete_disabled_witness:
  "has_products \<lparr>id_category = 7, name = ''Tools'', description = None,
                  products_count = Some 3\<rparr>
   \<and> disabled (categories_delete_button
        \<lparr>id_category = 7, name = ''Tools'', description = None,
         products_count = Some 3\<rparr>)
   \<and> click (categories_delete_button
        \<lparr>id_category = 7, name = ''Tools'', description = None,
         products_count = Some 3\<rparr>) True = []
   \<and> \<not> has_products \<lparr>id_category = 8, name = ''Paint'', description = None,
                      products_count = Some 0\<rparr>
   \<and> click (categories_delete_button
        \<lparr>id_category = 8, name = ''Paint'', description = None,
         products_count = Some 0\<rparr>) True = [DeleteCategory 8]"
proof -
  have a: "has_products \<lparr>id_category = 7, name = ''Tools'', description = None,
                  products_count = Some 3\<rparr>"
    by (simp add: has_products_def)
  have b: "\<not> has_products \<lparr>id_category = 8, name = ''Paint'', description = None,
                      products_count = Some 0\<rparr>"
    by (simp add: has_products_def)
  show ?thesis
    using a b
      category_delete_disabled [of "\<lparr>id_category = 7, name = ''Tools'', description = None,
                  products_count = Some 3\<rparr>" True]
      category_delete_disabled [of "\<lparr>id_category = 8, name = ''Paint'', description = None,
                      products_count = Some 0\<rparr>" True]
    by simp
qed

end
